theory Spec2Isabelle
  imports Complex_Main "HOL-Library.AList"
begin

section \<open>The Worker's HTTP surface\<close>

text \<open>
  The two request handlers of the repository, \<^verbatim>\<open>src/index.ts\<close> (the Worker's
  \<^verbatim>\<open>fetch\<close>) and \<^verbatim>\<open>src/durable-objects/agent-manager.ts\<close> (the
  \<^verbatim>\<open>AgentManager\<close> Durable Object), are embedded as functions from a request to a
  response. What the handlers read from the platform (the clock, the parsed request body,
  the environment binding) is passed in explicitly.
\<close>

subsection \<open>Values the handlers exchange with the platform\<close>

text \<open>
  A JSON value as \<^verbatim>\<open>JSON.parse\<close> delivers it and \<^verbatim>\<open>JSON.stringify\<close> takes it.
  JavaScript numbers are IEEE doubles; the handlers never compute with them, so the number
  type is a parameter \<open>'n\<close>. An object keeps its keys in insertion order.
\<close>

datatype 'n json_value =
    JNull
  | JBool bool
  | JNum 'n
  | JStr string
  | JArr "'n json_value list"
  | JObj "(string \<times> 'n json_value) list"

text \<open>
  A response body: \<^verbatim>\<open>null\<close>, a plain string, or a JSON text written by
  \<^verbatim>\<open>JSON.stringify\<close>, kept as the JSON value that the text denotes (what a client
  reads back from it). For a value without numbers, as in \<^verbatim>\<open>src/index.ts\<close>, that is
  the value handed to \<^verbatim>\<open>JSON.stringify\<close>; what becomes of numbers is \<open>written\<close>
  below.
\<close>

datatype 'n body = NullBody | TextBody string | JSON_stringify "'n json_value"

text \<open>
  What a \<^verbatim>\<open>catch (error)\<close> clause can receive: an \<^verbatim>\<open>Error\<close> instance with its
  message, or any other thrown value.
\<close>

datatype js_error = Error string | NonError

record 'n request =
  http_method :: string
  url_pathname :: string
  json :: "js_error + 'n json_value"

text \<open>
  \<open>url_pathname\<close> is \<^verbatim>\<open>new URL(request.url).pathname\<close>; the URL of a Request object
  is always absolute and parses. \<open>json\<close> is the settled outcome of
  \<^verbatim>\<open>await request.json()\<close>: the parsed body, or the error it rejects with.
\<close>

record 'n response =
  status :: nat
  headers :: "(string \<times> string) list"
  body :: "'n body"

text \<open>
  \<^verbatim>\<open>new Response(body, init)\<close>: the status is 200 unless \<^verbatim>\<open>init.status\<close> is given;
  the headers are those of \<^verbatim>\<open>init.headers\<close>.
\<close>

definition Response :: "'n body \<Rightarrow> nat option \<Rightarrow> (string \<times> string) list \<Rightarrow> 'n response" where
  "Response b init_status init_headers =
     \<lparr>status = (case init_status of None \<Rightarrow> 200 | Some s \<Rightarrow> s),
      headers = init_headers,
      body = b\<rparr>"

text \<open>
  The object literal \<^verbatim>\<open>{ ...base, ...ext }\<close>: a key of \<open>ext\<close> already in \<open>base\<close>
  takes the new value at its old place, a new key is appended.
\<close>

definition spread :: "(string \<times> 'v) list \<Rightarrow> (string \<times> 'v) list \<Rightarrow> (string \<times> 'v) list" where
  "spread base ext = fold (\<lambda>(k, v) acc. AList.update k v acc) ext base"

text \<open>
  Reading a header of a response, and a property of the JSON object that the text of its
  body denotes.
\<close>

definition header :: "string \<Rightarrow> 'n response \<Rightarrow> string option" where
  "header name r = map_of (headers r) name"

definition payload_field :: "string \<Rightarrow> 'n response \<Rightarrow> 'n json_value option" where
  "payload_field name r =
     (case body r of
        JSON_stringify (JObj props) \<Rightarrow> map_of props name
      | _ \<Rightarrow> None)"

text \<open>
  The clock and the date formatter: \<open>Date_now\<close> is the value of \<^verbatim>\<open>Date.now()\<close> in
  milliseconds, \<open>new_Date\<close> the time value of \<^verbatim>\<open>new Date()\<close> (a separate read of the
  clock), \<open>toISOString\<close> the built-in formatter.
\<close>

record runtime =
  Date_now :: int
  new_Date :: int
  toISOString :: "int \<Rightarrow> string"

text \<open>The one binding of \<^verbatim>\<open>Env\<close> (\<^verbatim>\<open>src/types/env.ts\<close>) that the Worker reads.\<close>

record env =
  ENVIRONMENT :: "string option"

subsection \<open>Numbers in template literals\<close>

text \<open>
  \<^verbatim>\<open>`agent_${Date.now()}`\<close> converts an integral number to its decimal digits (the
  exponent form only starts at \<open>10^21\<close>, far beyond any time value).
\<close>

definition digit_char :: "nat \<Rightarrow> char" where
  "digit_char d =
     (if d = 0 then CHR ''0'' else if d = 1 then CHR ''1'' else if d = 2 then CHR ''2''
      else if d = 3 then CHR ''3'' else if d = 4 then CHR ''4'' else if d = 5 then CHR ''5''
      else if d = 6 then CHR ''6'' else if d = 7 then CHR ''7'' else if d = 8 then CHR ''8''
      else CHR ''9'')"

fun digits :: "nat \<Rightarrow> string" where
  "digits n = (if n < 10 then [digit_char n] else digits (n div 10) @ [digit_char (n mod 10)])"

declare digits.simps [simp del]

definition Number_toString :: "int \<Rightarrow> string" where
  "Number_toString i = (if i < 0 then CHR ''-'' # digits (nat (- i)) else digits (nat i))"

text \<open>
  Decimal numerals, independently of how \<open>digits\<close> produces them: the number that a
  string of digits denotes, and the one string that denotes a number canonically (digits
  only, and no leading zero).
\<close>

definition digit_value :: "char \<Rightarrow> nat" where
  "digit_value c = of_char c - 48"

definition decimal_value :: "string \<Rightarrow> nat" where
  "decimal_value s = foldl (\<lambda>acc c. 10 * acc + digit_value c) 0 s"

definition is_digit :: "char \<Rightarrow> bool" where
  "is_digit c \<longleftrightarrow> c \<in> set ''0123456789''"

definition canonicalDecimal :: "string \<Rightarrow> bool" where
  "canonicalDecimal ds \<longleftrightarrow>
     ds \<noteq> [] \<and> list_all is_digit ds \<and> (hd ds = CHR ''0'' \<longrightarrow> ds = ''0'')"

subsection \<open>Numbers in JSON texts\<close>

text \<open>
  A JavaScript number as \<^verbatim>\<open>JSON.parse\<close> can deliver it: a finite double (a rational),
  negative zero (from \<^verbatim>\<open>-0\<close>), or an infinity (from a literal beyond the range of
  doubles, such as \<^verbatim>\<open>1e400\<close>); \<^verbatim>\<open>NaN\<close> completes the type.
\<close>

datatype js_number = Finite rat | NegativeZero | PositiveInfinity | NegativeInfinity | NaN

text \<open>
  What \<^verbatim>\<open>JSON.stringify\<close> makes of a value that \<^verbatim>\<open>JSON.parse\<close> delivered:
  \<open>written v\<close> is the value that the text \<^verbatim>\<open>JSON.stringify(v)\<close> denotes. A finite
  number is written so that it reads back as itself, negative zero is written
  \<^verbatim>\<open>0\<close>, and a number that is not finite is written \<^verbatim>\<open>null\<close>; strings, booleans and
  \<^verbatim>\<open>null\<close> are kept, arrays and objects are written element by element.
\<close>

primrec written :: "js_number json_value \<Rightarrow> js_number json_value" where
  "written JNull = JNull"
| "written (JBool b) = JBool b"
| "written (JNum n) =
     (case n of
        Finite q \<Rightarrow> JNum (Finite q)
      | NegativeZero \<Rightarrow> JNum (Finite 0)
      | _ \<Rightarrow> JNull)"
| "written (JStr s) = JStr s"
| "written (JArr vs) = JArr (map written vs)"
| "written (JObj props) = JObj (map (map_prod id written) props)"

text \<open>A value is lossless when every number in it is finite.\<close>

primrec numbers_of :: "'n json_value \<Rightarrow> 'n list" where
  "numbers_of JNull = []"
| "numbers_of (JBool b) = []"
| "numbers_of (JNum n) = [n]"
| "numbers_of (JStr s) = []"
| "numbers_of (JArr vs) = concat (map numbers_of vs)"
| "numbers_of (JObj props) = concat (map snd (map (map_prod id numbers_of) props))"

fun finite_number :: "js_number \<Rightarrow> bool" where
  "finite_number (Finite q) = True"
| "finite_number n = False"

definition lossless :: "js_number json_value \<Rightarrow> bool" where
  "lossless v = list_all finite_number (numbers_of v)"

subsection \<open>The Worker: \<^verbatim>\<open>fetch\<close> of \<^verbatim>\<open>src/index.ts\<close>\<close>

definition corsHeaders :: "(string \<times> string) list" where
  "corsHeaders =
     [(''Access-Control-Allow-Origin'', ''*''),
      (''Access-Control-Allow-Methods'', ''GET, POST, PUT, DELETE, OPTIONS''),
      (''Access-Control-Allow-Headers'', ''Content-Type, Authorization''),
      (''Access-Control-Max-Age'', ''86400'')]"

definition jsonHeaders :: "(string \<times> string) list" where
  "jsonHeaders = spread [(''Content-Type'', ''application/json'')] corsHeaders"

text \<open>
  The body of the \<^verbatim>\<open>try\<close> block: the \<^verbatim>\<open>switch\<close> on the pathname. It returns a
  response or throws. Nothing in it throws for a well-typed \<^verbatim>\<open>env\<close>; the one
  property access, \<^verbatim>\<open>env.ENVIRONMENT\<close> on the health route, throws a TypeError when the
  binding object is \<^verbatim>\<open>undefined\<close> (\<open>None\<close>).
\<close>

definition route :: "runtime \<Rightarrow> env option \<Rightarrow> 'n request \<Rightarrow> js_error + 'n response" where
  "route rt env request =
     (if url_pathname request = ''/'' then
        Inr (Response
          (JSON_stringify (JObj
            [(''name'', JStr ''LibratusLounge''),
             (''version'', JStr ''0.1.0''),
             (''status'', JStr ''ready''),
             (''message'', JStr ''AI Poker Agents API'')]))
          None jsonHeaders)
      else if url_pathname request = ''/health'' then
        (case env of
           None \<Rightarrow> Inl (Error ''Cannot read properties of undefined (reading 'ENVIRONMENT')'')
         | Some e \<Rightarrow>
             Inr (Response
               (JSON_stringify (JObj
                 [(''status'', JStr ''healthy''),
                  (''timestamp'', JStr (toISOString rt (new_Date rt))),
                  (''environment'', JStr
                     (case ENVIRONMENT e of
                        None \<Rightarrow> ''development''
                      | Some v \<Rightarrow> if v = [] then ''development'' else v))]))
               None jsonHeaders))
      else
        Inr (Response
          (JSON_stringify (JObj
            [(''error'', JStr ''Not Found''),
             (''message'', JStr (''Route '' @ url_pathname request @ '' not found''))]))
          (Some 404) jsonHeaders))"

text \<open>The \<^verbatim>\<open>catch\<close> clause.\<close>

definition internal_error :: "js_error \<Rightarrow> 'n response" where
  "internal_error error =
     Response
       (JSON_stringify (JObj
         [(''error'', JStr ''Internal Server Error''),
          (''message'', JStr (case error of Error m \<Rightarrow> m | NonError \<Rightarrow> ''Unknown error''))]))
       (Some 500) jsonHeaders"

definition fetch :: "runtime \<Rightarrow> env option \<Rightarrow> 'n request \<Rightarrow> 'n response" where
  "fetch rt env request =
     (if http_method request = ''OPTIONS'' then Response NullBody None corsHeaders
      else (case route rt env request of
              Inr r \<Rightarrow> r
            | Inl error \<Rightarrow> internal_error error))"

subsection \<open>The Durable Object: \<^verbatim>\<open>AgentManager\<close>\<close>

text \<open>
  The bodies of the Durable Object hold numbers, so each is the text that
  \<^verbatim>\<open>JSON.stringify\<close> writes for the object: the value \<open>written\<close> of it.
\<close>

definition listAgents :: "js_number response" where
  "listAgents =
     Response (JSON_stringify (written (JObj [(''agents'', JArr []), (''total'', JNum (Finite 0))])))
       None [(''Content-Type'', ''application/json'')]"

text \<open>
  \<^verbatim>\<open>createAgent\<close> awaits \<^verbatim>\<open>request.json()\<close>; a rejection of that promise is the
  rejection of \<^verbatim>\<open>createAgent\<close> (\<open>Inl\<close>). The parsed body goes into the object
  literal as it is, and the object is serialised.
\<close>

definition createAgent :: "runtime \<Rightarrow> js_number request \<Rightarrow> js_error + js_number response" where
  "createAgent rt request =
     (case json request of
        Inl error \<Rightarrow> Inl error
      | Inr config \<Rightarrow>
          Inr (Response
            (JSON_stringify (written (JObj
              [(''agentId'', JStr (''agent_'' @ Number_toString (Date_now rt))),
               (''status'', JStr ''created''),
               (''config'', config),
               (''createdAt'', JStr (toISOString rt (new_Date rt)))])))
            (Some 201) [(''Content-Type'', ''application/json'')]))"

text \<open>
  \<^verbatim>\<open>AgentManager.fetch\<close>: the \<^verbatim>\<open>switch\<close> on the method. A \<^verbatim>\<open>GET\<close> or
  \<^verbatim>\<open>POST\<close> on another path breaks out of the switch to the 404. The handler
  returns the promise of \<^verbatim>\<open>createAgent\<close> without awaiting it, so a rejection of that
  promise is not caught by the surrounding \<^verbatim>\<open>try\<close>: it is the handler's outcome.
  Nothing else in the \<^verbatim>\<open>try\<close> block throws.
\<close>

definition AgentManager_fetch :: "runtime \<Rightarrow> js_number request \<Rightarrow> js_error + js_number response" where
  "AgentManager_fetch rt request =
     (if http_method request = ''GET'' then
        (if url_pathname request = ''/agents'' then Inr listAgents
         else Inr (Response (TextBody ''Not found'') (Some 404) []))
      else if http_method request = ''POST'' then
        (if url_pathname request = ''/agents'' then createAgent rt request
         else Inr (Response (TextBody ''Not found'') (Some 404) []))
      else Inr (Response (TextBody ''Method not allowed'') (Some 405) []))"

section \<open>The documented decision cache and router\<close>

text \<open>
  The spec describes a tiered decision cache and router (a fingerprint normalizer, a cache
  store, a tier classifier, a budget manager and the router that orchestrates them). The
  repository holds its design documents (\<^verbatim>\<open>docs/ARCHITECTURE.md\<close>, the implementation
  plan) and the test matcher \<^verbatim>\<open>toBeValidDecision\<close> of \<^verbatim>\<open>tests/setup.ts\<close>, but
  no implementation. Each component below is therefore modelled from the spec, section by
  section, as the behaviour of one request served at a time.
\<close>

subsection \<open>Data model\<close>

text \<open>
  Modelled from the spec: the Decision of section 3, whose implementation is missing:
  an action among fold, call, raise, check and all-in, an optional amount, a confidence,
  an optional reasoning and a latency.
\<close>

datatype action = Fold | Call | Raise | Check | AllIn

record Decision =
  action :: action
  amount :: "nat option"
  confidence :: rat
  reasoning :: "string option"
  latency :: nat




text \<open>
  Modelled from the spec: the error taxonomy of section 7 and the errors of the Expensive
  Tier Provider of section 6; no implementation exists.
\<close>

datatype error =
    NormalizationError
  | CacheUnavailable
  | ProviderTimeout
  | ProviderError
  | DeadlineExceeded

datatype provider_error = Timeout | ProviderUnavailable | InvalidResponse

text \<open>
  Modelled from the spec: the tiers of sections 4.3 and 4.4, Expensive down to Cheap. Cards,
  position categories and fingerprints are strings.
\<close>

datatype Tier = Cheap | Moderate | Expensive

type_synonym Card = string
type_synonym Position = string
type_synonym Fingerprint = string

text \<open>
  Modelled from the spec: the Situation of section 3 (cards, pot, call amount, position,
  per-player stacks, betting history), with the fields that the documented key generation
  of \<^verbatim>\<open>docs/ARCHITECTURE.md\<close> reads (\<^verbatim>\<open>stackSize\<close>, \<^verbatim>\<open>blindLevel.big\<close>).
\<close>

record Situation =
  hand :: "Card list"
  communityCards :: "Card list"
  pot :: nat
  toCall :: nat
  position :: Position
  stackSize :: nat
  bigBlind :: nat
  playerStacks :: "nat list"
  bettingHistory :: "string list"

text \<open>
  Modelled from the spec: the NormalizedFeatures of section 3: bucketized hand strength,
  pot-odds ratio rounded to a fixed granularity, position category, encoded betting-pattern
  signature, bucketized stack-depth-to-blind ratio.
\<close>

record NormalizedFeatures =
  handStrength :: nat
  potOdds :: rat
  positionCategory :: Position
  streetBettingPattern :: string
  stackDepth :: nat

subsection \<open>Fingerprint Normalizer (section 4.1)\<close>

text \<open>
  Modelled from the spec: the bucketization choices, which section 4.1 calls configuration
  constants, and the digest. The helpers \<^verbatim>\<open>bucketizeHandStrength\<close>,
  \<^verbatim>\<open>encodeBettingPattern\<close> and \<^verbatim>\<open>bucketizeStack\<close> of the documented key generation
  are not in the repository; they and the hash (\<^verbatim>\<open>sha256\<close>, hex) are parameters.
\<close>

record NormalizerConfig =
  bucketizeHandStrength :: "Card list \<Rightarrow> Card list \<Rightarrow> nat"
  encodeBettingPattern :: "string list \<Rightarrow> string"
  bucketizeStack :: "rat \<Rightarrow> nat"
  sha256_hex :: "rat body \<Rightarrow> Fingerprint"

text \<open>
  Modelled from the spec: the rounding of the pot-odds ratio to a fixed granularity, which
  the documented key generation does with \<^verbatim>\<open>Math.round\<close>: the nearest integer, a
  tie going up. The ratio is an exact rational here, not a floating-point number.
\<close>

definition Math_round :: "rat \<Rightarrow> int" where
  "Math_round x = \<lfloor>x + 1 / 2\<rfloor>"

text \<open>
  Modelled from the spec: \<^verbatim>\<open>normalize(situation) -> NormalizedFeatures\<close> of section 4.1,
  after the documented key generation: the pot odds are \<^verbatim>\<open>toCall / pot\<close> rounded to
  tenths, the stack depth is the bucket of \<^verbatim>\<open>stackSize / blindLevel.big\<close>. A situation
  for which these ratios do not exist (an empty pot, a zero big blind) is the malformed
  situation of section 7: a NormalizationError.
\<close>

definition normalize_situation :: "NormalizerConfig \<Rightarrow> Situation \<Rightarrow> error + NormalizedFeatures" where
  "normalize_situation nc s =
     (if pot s = 0 \<or> bigBlind s = 0 then Inl NormalizationError
      else Inr
        \<lparr>handStrength = bucketizeHandStrength nc (hand s) (communityCards s),
         potOdds = of_int (Math_round (of_nat (toCall s) / of_nat (pot s) * 10)) / 10,
         positionCategory = position s,
         streetBettingPattern = encodeBettingPattern nc (bettingHistory s),
         stackDepth = bucketizeStack nc (of_nat (stackSize s) / of_nat (bigBlind s))\<rparr>)"

text \<open>
  Modelled from the spec: the canonical serialization of the features (the object of the
  documented key generation, its keys in their written order) and
  \<^verbatim>\<open>fingerprint(features) -> Fingerprint\<close>, the digest of that serialization.
\<close>

definition canonical :: "NormalizedFeatures \<Rightarrow> rat json_value" where
  "canonical f =
     JObj [(''handStrength'', JNum (of_nat (handStrength f))),
           (''potOdds'', JNum (potOdds f)),
           (''position'', JStr (positionCategory f)),
           (''streetBettingPattern'', JStr (streetBettingPattern f)),
           (''stackDepth'', JNum (of_nat (stackDepth f)))]"

definition fingerprint :: "NormalizerConfig \<Rightarrow> NormalizedFeatures \<Rightarrow> Fingerprint" where
  "fingerprint nc f = sha256_hex nc (JSON_stringify (canonical f))"

text \<open>
  Modelled from the spec: \<^verbatim>\<open>fingerprint(S)\<close> of section 8, the fingerprint of a
  situation: that of its normalized features, when it has them.
\<close>

definition fingerprintOf :: "NormalizerConfig \<Rightarrow> Situation \<Rightarrow> error + Fingerprint" where
  "fingerprintOf nc s =
     (case normalize_situation nc s of
        Inl e \<Rightarrow> Inl e
      | Inr f \<Rightarrow> Inr (fingerprint nc f))"

subsection \<open>Cache Store (section 4.2)\<close>

text \<open>
  Modelled from the spec: the CacheEntry of section 3 and the two-level store of section
  4.2, neither implemented in the repository. Times and time-to-live are in one unit on the
  natural numbers. Each tier is a list of slots, a slot holding the fingerprint, the stored
  feature vector and the entry; the fast tier is in order of use, most recent first, and
  bounded by \<open>fastCapacity\<close>; the shared tier is unbounded.
\<close>

datatype matchPrecision = exact | similar

record CacheEntry =
  decision :: Decision
  matchPrecision :: matchPrecision
  confidenceAdjustment :: rat
  insertedAt :: nat
  ttl :: nat

type_synonym Slot = "NormalizedFeatures \<times> CacheEntry"

record CacheStore =
  fast :: "(Fingerprint \<times> Slot) list"
  shared :: "(Fingerprint \<times> Slot) list"

record CacheConfig =
  fastCapacity :: nat
  ttlExact :: nat
  ttlSimilar :: nat
  adjustmentSimilar :: rat
  distance :: "NormalizedFeatures \<Rightarrow> NormalizedFeatures \<Rightarrow> rat"

text \<open>
  Modelled from the spec: the time-to-live differs by precision (section 4.2); the two
  values are configuration.
\<close>

definition ttlFor :: "CacheConfig \<Rightarrow> matchPrecision \<Rightarrow> nat" where
  "ttlFor cc p = (case p of exact \<Rightarrow> ttlExact cc | similar \<Rightarrow> ttlSimilar cc)"

text \<open>
  Modelled from the spec: ``reads must check \<^verbatim>\<open>insertedAt + ttl\<close> before returning''.
  An entry is live strictly before \<^verbatim>\<open>insertedAt + ttl\<close>.
\<close>

definition live :: "nat \<Rightarrow> CacheEntry \<Rightarrow> bool" where
  "live now e \<longleftrightarrow> now < insertedAt e + ttl e"

text \<open>
  Modelled from the spec: the bounded-capacity LRU of the fast tier: a slot that is
  written or read moves to the front, and the slots beyond the capacity are evicted.
\<close>

definition fastInsert :: "CacheConfig \<Rightarrow> Fingerprint \<Rightarrow> Slot \<Rightarrow> (Fingerprint \<times> Slot) list \<Rightarrow> (Fingerprint \<times> Slot) list" where
  "fastInsert cc fp sl xs = take (fastCapacity cc) ((fp, sl) # AList.delete fp xs)"

text \<open>
  Modelled from the spec: the fast-tier half of \<^verbatim>\<open>getExact\<close>. A live slot is
  returned and becomes the most recently used; an expired slot is not returned (and is
  dropped from the fast tier).
\<close>

definition lookupFast :: "CacheConfig \<Rightarrow> nat \<Rightarrow> Fingerprint \<Rightarrow> CacheStore \<Rightarrow> CacheEntry option \<times> CacheStore" where
  "lookupFast cc now fp st =
     (case map_of (fast st) fp of
        None \<Rightarrow> (None, st)
      | Some sl \<Rightarrow>
          if live now (snd sl) then (Some (snd sl), st\<lparr>fast := fastInsert cc fp sl (fast st)\<rparr>)
          else (None, st\<lparr>fast := AList.delete fp (fast st)\<rparr>))"

text \<open>
  Modelled from the spec: the shared-tier half of \<^verbatim>\<open>getExact\<close>: a live hit is
  promoted into the fast tier; an expired slot is not returned, whether or not the backend
  has evicted it yet.
\<close>

definition lookupShared :: "CacheConfig \<Rightarrow> nat \<Rightarrow> Fingerprint \<Rightarrow> CacheStore \<Rightarrow> CacheEntry option \<times> CacheStore" where
  "lookupShared cc now fp st =
     (case map_of (shared st) fp of
        None \<Rightarrow> (None, st)
      | Some sl \<Rightarrow>
          if live now (snd sl) then (Some (snd sl), st\<lparr>fast := fastInsert cc fp sl (fast st)\<rparr>)
          else (None, st))"


text \<open>
  Modelled from the spec: \<^verbatim>\<open>put(fingerprint, features, decision, precision)\<close>: a new
  entry, inserted now with the time-to-live of its precision, written to both tiers (to
  the fast tier only while the shared backend does not answer).
\<close>

definition newEntry :: "CacheConfig \<Rightarrow> nat \<Rightarrow> Decision \<Rightarrow> matchPrecision \<Rightarrow> CacheEntry" where
  "newEntry cc now d p =
     \<lparr>decision = d, matchPrecision = p,
      confidenceAdjustment = (case p of exact \<Rightarrow> 0 | similar \<Rightarrow> adjustmentSimilar cc),
      insertedAt = now, ttl = ttlFor cc p\<rparr>"

definition put :: "CacheConfig \<Rightarrow> bool \<Rightarrow> nat \<Rightarrow> Fingerprint \<Rightarrow> NormalizedFeatures \<Rightarrow> Decision \<Rightarrow> matchPrecision \<Rightarrow> CacheStore \<Rightarrow> CacheStore" where
  "put cc sharedUp now fp f d p st =
     \<lparr>fast = fastInsert cc fp (f, newEntry cc now d p) (fast st),
      shared = (if sharedUp then AList.update fp (f, newEntry cc now d p) (shared st)
                else shared st)\<rparr>"

text \<open>
  Modelled from the spec: \<^verbatim>\<open>getSimilar(features, threshold) -> CacheEntry?\<close>: among the
  live slots whose stored feature vector is within \<open>threshold\<close> of \<open>features\<close>, the
  closest one (the first of them on a tie). The distance is configuration: the spec leaves
  its weights to the implementer.
\<close>

fun closest :: "(NormalizedFeatures \<Rightarrow> rat) \<Rightarrow> Slot list \<Rightarrow> Slot option" where
  "closest d [] = None"
| "closest d (x # xs) =
     (case closest d xs of
        None \<Rightarrow> Some x
      | Some y \<Rightarrow> if d (fst x) \<le> d (fst y) then Some x else Some y)"

definition getSimilar :: "CacheConfig \<Rightarrow> bool \<Rightarrow> nat \<Rightarrow> NormalizedFeatures \<Rightarrow> rat \<Rightarrow> CacheStore \<Rightarrow> CacheEntry option" where
  "getSimilar cc sharedUp now f threshold st =
     map_option snd
       (closest (distance cc f)
          (filter (\<lambda>sl. live now (snd sl) \<and> distance cc f (fst sl) \<le> threshold)
             (map snd (fast st @ (if sharedUp then shared st else [])))))"






subsection \<open>Tier Classifier (section 4.3)\<close>

text \<open>
  Modelled from the spec: \<^verbatim>\<open>classify(features, situation) -> Tier\<close>. The rules
  themselves are configuration (the repository names them only in comments); they are
  evaluated in one fixed priority order, the force-cheap rules before the force-expensive
  ones, the first rule that matches deciding the tier, and Moderate when none matches.
\<close>

type_synonym Rule = "NormalizedFeatures \<Rightarrow> Situation \<Rightarrow> bool"

record ClassifierConfig =
  forceCheap :: "Rule list"
  forceExpensive :: "Rule list"

definition priorityOrder :: "ClassifierConfig \<Rightarrow> (Rule \<times> Tier) list" where
  "priorityOrder k =
     map (\<lambda>r. (r, Cheap)) (forceCheap k) @ map (\<lambda>r. (r, Expensive)) (forceExpensive k)"

definition classify :: "ClassifierConfig \<Rightarrow> NormalizedFeatures \<Rightarrow> Situation \<Rightarrow> Tier" where
  "classify k f s =
     (case find (\<lambda>(r, t). r f s) (priorityOrder k) of
        None \<Rightarrow> Moderate
      | Some (r, t) \<Rightarrow> t)"

subsection \<open>Budget Manager (section 4.4)\<close>

text \<open>
  Modelled from the spec: the BudgetState of section 3 and the contract of section 4.4.
  Costs are natural numbers of the smallest unit of account. The window rolls over, and
  spend and counts are reset, at the first use at or after \<open>windowStart + windowLength\<close>.
\<close>

record BudgetConfig =
  budgetLimit :: nat
  windowLength :: nat

record BudgetState =
  windowStart :: nat
  spend :: nat
  calls :: nat
  elapsedTotal :: nat

text \<open>
  Modelled from the spec: ``window rollover resets spend atomically''; the remaining budget
  is what the limit leaves after the spend of the active window.
\<close>

definition rollover :: "BudgetConfig \<Rightarrow> nat \<Rightarrow> BudgetState \<Rightarrow> BudgetState" where
  "rollover bc now b =
     (if windowStart b + windowLength bc \<le> now
      then \<lparr>windowStart = now, spend = 0, calls = 0, elapsedTotal = 0\<rparr>
      else b)"

definition remainingBudget :: "BudgetConfig \<Rightarrow> nat \<Rightarrow> BudgetState \<Rightarrow> nat" where
  "remainingBudget bc now b = budgetLimit bc - spend (rollover bc now b)"

text \<open>
  Modelled from the spec: ``\<^verbatim>\<open>canEscalate\<close> denies escalation once the window's
  remaining budget is smaller than \<^verbatim>\<open>estimatedCost\<close>''.
\<close>

definition canEscalate :: "BudgetConfig \<Rightarrow> nat \<Rightarrow> BudgetState \<Rightarrow> nat \<Rightarrow> bool" where
  "canEscalate bc now b estimatedCost \<longleftrightarrow> \<not> remainingBudget bc now b < estimatedCost"

text \<open>
  Modelled from the spec: \<^verbatim>\<open>record(actualCost, elapsed)\<close>, charged to the window that is
  active at the time of completion.
\<close>

definition record_cost :: "BudgetConfig \<Rightarrow> nat \<Rightarrow> nat \<Rightarrow> nat \<Rightarrow> BudgetState \<Rightarrow> BudgetState" where
  "record_cost bc now actualCost elapsed b =
     (let b' = rollover bc now b
      in b'\<lparr>spend := spend b' + actualCost, calls := calls b' + 1,
            elapsedTotal := elapsedTotal b' + elapsed\<rparr>)"

subsection \<open>Decision Router (section 4.6)\<close>

text \<open>
  Modelled from the spec: the configuration the Router is built with: the configurations
  of its components, the estimated cost of each tier (what it asks \<^verbatim>\<open>canEscalate\<close>
  for), the similarity threshold, and the Cheap tier, a synchronous deterministic rule
  that always produces a decision.
\<close>

record RouterConfig =
  normalizerCfg :: NormalizerConfig
  cacheCfg :: CacheConfig
  classifierCfg :: ClassifierConfig
  budgetCfg :: BudgetConfig
  estimatedCost :: "Tier \<Rightarrow> nat"
  similarityThreshold :: rat
  cheapTier :: "Situation \<Rightarrow> Decision"

text \<open>
  Modelled from the spec: what the collaborators do during one request (sections 5 and 6):
  whether the shared cache backend answers, the outcome of the Expensive Tier Provider (a
  decision with its actual cost and elapsed time, or an error), whether the Moderate tier
  is available, and at which suspension points the caller's deadline has elapsed.
\<close>

datatype suspension = SharedCacheRoundTrip | ExpensiveCall

record Collaborators =
  sharedBackendUp :: bool
  expensiveTier :: "Situation \<Rightarrow> provider_error + (Decision \<times> nat \<times> nat)"
  moderateTier :: "Situation \<Rightarrow> Decision option"
  deadlineElapsed :: "suspension \<Rightarrow> bool"

record RouterState =
  cache :: CacheStore
  budget :: BudgetState

text \<open>
  Modelled from the spec: the states of the orchestration state machine of section 4.6.
  \<open>RETURN\<close> and \<open>ERROR\<close> are where a request ends: with a decision, or with the error
  that is propagated to the caller.
\<close>

datatype phase =
    NORMALIZE
  | CACHE_LOOKUP NormalizedFeatures
  | CLASSIFY NormalizedFeatures
  | BUDGET_CHECK NormalizedFeatures Tier
  | DOWNGRADE_TIER NormalizedFeatures Tier
  | COMPUTE NormalizedFeatures Tier
  | CACHE_WRITE NormalizedFeatures Decision
  | FAIL
  | RETURN Decision
  | ERROR error

fun terminal :: "phase \<Rightarrow> bool" where
  "terminal (RETURN d) = True"
| "terminal (ERROR e) = True"
| "terminal ph = False"

text \<open>
  Modelled from the spec: CACHE\_LOOKUP. An exact hit or, failing that, a similar entry
  within the threshold returns its decision. The shared tier is a suspension point: when
  the backend does not answer the tier is skipped, and when the deadline has elapsed
  there the Router abandons the path (FAIL, which falls back to the Cheap tier).
\<close>

definition cacheLookup :: "RouterConfig \<Rightarrow> Collaborators \<Rightarrow> nat \<Rightarrow> NormalizedFeatures \<Rightarrow> RouterState \<Rightarrow> phase \<times> RouterState" where
  "cacheLookup cfg env now f st =
     (case lookupFast (cacheCfg cfg) now (fingerprint (normalizerCfg cfg) f) (cache st) of
        (Some e, c') \<Rightarrow> (RETURN (decision e), st\<lparr>cache := c'\<rparr>)
      | (None, c') \<Rightarrow>
          if sharedBackendUp env \<and> deadlineElapsed env SharedCacheRoundTrip
          then (FAIL, st\<lparr>cache := c'\<rparr>)
          else
            (case (if sharedBackendUp env
                   then lookupShared (cacheCfg cfg) now (fingerprint (normalizerCfg cfg) f) c'
                   else (None, c')) of
               (Some e, c'') \<Rightarrow> (RETURN (decision e), st\<lparr>cache := c''\<rparr>)
             | (None, c'') \<Rightarrow>
                 (case getSimilar (cacheCfg cfg) (sharedBackendUp env) now f
                         (similarityThreshold cfg) c'' of
                    Some e \<Rightarrow> (RETURN (decision e), st\<lparr>cache := c''\<rparr>)
                  | None \<Rightarrow> (CLASSIFY f, st\<lparr>cache := c''\<rparr>))))"

text \<open>
  Modelled from the spec: COMPUTE. The Expensive tier is the outbound call: any error of
  the provider is ``tier unavailable'' and leads to a downgrade, with the budget not
  charged; an elapsed deadline abandons the path; a decision is charged to the budget at
  its completion time. The Moderate tier answers or is unavailable. The Cheap tier always
  answers.
\<close>

definition compute :: "RouterConfig \<Rightarrow> Collaborators \<Rightarrow> nat \<Rightarrow> Situation \<Rightarrow> NormalizedFeatures \<Rightarrow> Tier \<Rightarrow> RouterState \<Rightarrow> phase \<times> RouterState" where
  "compute cfg env now s f t st =
     (case t of
        Expensive \<Rightarrow>
          (if deadlineElapsed env ExpensiveCall then (FAIL, st)
           else
             (case expensiveTier env s of
                Inl err \<Rightarrow> (DOWNGRADE_TIER f Expensive, st)
              | Inr (d, actualCost, elapsed) \<Rightarrow>
                  (CACHE_WRITE f d,
                   st\<lparr>budget := record_cost (budgetCfg cfg) (now + elapsed) actualCost elapsed
                                   (budget st)\<rparr>)))
      | Moderate \<Rightarrow>
          (case moderateTier env s of
             None \<Rightarrow> (DOWNGRADE_TIER f Moderate, st)
           | Some d \<Rightarrow> (CACHE_WRITE f d, st))
      | Cheap \<Rightarrow> (CACHE_WRITE f (cheapTier cfg s), st))"

text \<open>
  Modelled from the spec: one transition of the state machine of section 4.6:
  \<^verbatim>\<open>NORMALIZE -> CACHE_LOOKUP -> {HIT: RETURN, MISS: CLASSIFY} -> CLASSIFY ->
  BUDGET_CHECK -> {DENIED: DOWNGRADE_TIER (loop to BUDGET_CHECK), ALLOWED: COMPUTE} ->
  COMPUTE -> CACHE_WRITE -> RETURN\<close>. The tiers are downgraded Expensive, Moderate, Cheap;
  with nothing below Cheap the machine is in FAIL, and FAIL returns the cheapest tier's
  rule output. An error of the normalizer ends the request with that error.
\<close>

definition step :: "RouterConfig \<Rightarrow> Collaborators \<Rightarrow> nat \<Rightarrow> Situation \<Rightarrow> phase \<times> RouterState \<Rightarrow> phase \<times> RouterState" where
  "step cfg env now s c =
     (case c of (ph, st) \<Rightarrow>
        (case ph of
           NORMALIZE \<Rightarrow>
             (case normalize_situation (normalizerCfg cfg) s of
                Inl e \<Rightarrow> (ERROR e, st)
              | Inr f \<Rightarrow> (CACHE_LOOKUP f, st))
         | CACHE_LOOKUP f \<Rightarrow> cacheLookup cfg env now f st
         | CLASSIFY f \<Rightarrow> (BUDGET_CHECK f (classify (classifierCfg cfg) f s), st)
         | BUDGET_CHECK f t \<Rightarrow>
             (if canEscalate (budgetCfg cfg) now (budget st) (estimatedCost cfg t)
              then (COMPUTE f t, st) else (DOWNGRADE_TIER f t, st))
         | DOWNGRADE_TIER f t \<Rightarrow>
             (case t of
                Expensive \<Rightarrow> (BUDGET_CHECK f Moderate, st)
              | Moderate \<Rightarrow> (BUDGET_CHECK f Cheap, st)
              | Cheap \<Rightarrow> (FAIL, st))
         | COMPUTE f t \<Rightarrow> compute cfg env now s f t st
         | CACHE_WRITE f d \<Rightarrow>
             (RETURN d,
              st\<lparr>cache := put (cacheCfg cfg) (sharedBackendUp env) now
                              (fingerprint (normalizerCfg cfg) f) f d exact (cache st)\<rparr>)
         | FAIL \<Rightarrow> (RETURN (cheapTier cfg s), st)
         | RETURN d \<Rightarrow> (RETURN d, st)
         | ERROR e \<Rightarrow> (ERROR e, st)))"

text \<open>The distance of a state from the end of the request; every transition lowers it.\<close>

fun tierRank :: "Tier \<Rightarrow> nat" where
  "tierRank Cheap = 0"
| "tierRank Moderate = 1"
| "tierRank Expensive = 2"

fun rank :: "phase \<Rightarrow> nat" where
  "rank NORMALIZE = 13"
| "rank (CACHE_LOOKUP f) = 12"
| "rank (CLASSIFY f) = 11"
| "rank (BUDGET_CHECK f t) = 3 * tierRank t + 4"
| "rank (COMPUTE f t) = 3 * tierRank t + 3"
| "rank (DOWNGRADE_TIER f t) = 3 * tierRank t + 2"
| "rank (CACHE_WRITE f d) = 1"
| "rank FAIL = 1"
| "rank (RETURN d) = 0"
| "rank (ERROR e) = 0"

text \<open>
  Modelled from the spec: a request runs the state machine to a terminal state; the run
  yields the states passed through, in order, and the Router state left behind.
\<close>

function run :: "RouterConfig \<Rightarrow> Collaborators \<Rightarrow> nat \<Rightarrow> Situation \<Rightarrow> phase \<times> RouterState \<Rightarrow> phase list \<times> RouterState" where
  "run cfg env now s c =
     (if terminal (fst c) then ([fst c], snd c)
      else (case run cfg env now s (step cfg env now s c) of
              (tr, st') \<Rightarrow> (fst c # tr, st')))"
  by pat_completeness auto
termination
proof (relation "measure (\<lambda>(cfg, env, now, s, c). rank (fst c))")
  show "wf (measure (\<lambda>(cfg, env, now, s, c). rank (fst c)))"
    by simp
next
  fix cfg :: RouterConfig and env :: Collaborators and now :: nat and s :: Situation
    and c :: "phase \<times> RouterState"
  have below: "3 * tierRank t < 7" for t
    by (cases t) simp_all
  assume "\<not> terminal (fst c)"
  then have "rank (fst (step cfg env now s c)) < rank (fst c)"
    by (cases c; cases "fst c")
       (auto simp: step_def cacheLookup_def compute_def below
             split: sum.splits option.splits prod.splits Tier.splits if_splits)
  then show "((cfg, env, now, s, step cfg env now s c), (cfg, env, now, s, c))
               \<in> measure (\<lambda>(cfg, env, now, s, c). rank (fst c))"
    by simp
qed

declare run.simps [simp del]

text \<open>
  Modelled from the spec: \<^verbatim>\<open>decide(situation, deadline) -> Decision | Error\<close> (section
  6): the outcome of the run from NORMALIZE, with the states it passed through and the
  Router state it leaves. The deadline enters through \<open>deadlineElapsed\<close>.
\<close>

fun outcome :: "phase \<Rightarrow> (error + Decision) option" where
  "outcome (RETURN d) = Some (Inr d)"
| "outcome (ERROR e) = Some (Inl e)"
| "outcome ph = None"


definition decide :: "RouterConfig \<Rightarrow> Collaborators \<Rightarrow> nat \<Rightarrow> Situation \<Rightarrow> RouterState \<Rightarrow> (error + Decision) option \<times> RouterState" where
  "decide cfg env now s st =
     (case run cfg env now s (NORMALIZE, st) of (tr, st') \<Rightarrow> (outcome (last tr), st'))"



subsection \<open>Predicates the properties are stated with\<close>








subsection \<open>Example inputs\<close>

text \<open>
  A configuration, collaborators and situations on which the properties below are
  instantiated: a one-slot fast tier, a budget of 100 per window of 1000, an Expensive tier
  estimated at 5, one force-cheap rule (nothing to call) and one force-expensive rule
  (three or more players).
\<close>

definition exampleDecision :: "action \<Rightarrow> Decision" where
  "exampleDecision a =
     \<lparr>action = a, amount = None, confidence = 1 / 2, reasoning = None, latency = 0\<rparr>"

definition exampleSituation :: "nat \<Rightarrow> Situation" where
  "exampleSituation p =
     \<lparr>hand = [''As'', ''Kd''], communityCards = [], pot = p, toCall = 100,
      position = ''button'', stackSize = 1000, bigBlind = 10,
      playerStacks = [1000, 980, 400], bettingHistory = [''raise'', ''raise'']\<rparr>"

definition exampleFeatures :: NormalizedFeatures where
  "exampleFeatures =
     \<lparr>handStrength = 2, potOdds = 1 / 5, positionCategory = ''button'',
      streetBettingPattern = ''raiseraise'', stackDepth = 10\<rparr>"

definition exampleNormalizer :: NormalizerConfig where
  "exampleNormalizer =
     \<lparr>bucketizeHandStrength = (\<lambda>h c. length h + length c),
      encodeBettingPattern = concat,
      bucketizeStack = (\<lambda>q. nat \<lfloor>q / 10\<rfloor>),
      sha256_hex = (\<lambda>b. case b of
                            JSON_stringify (JObj props) \<Rightarrow> concat (map fst props)
                          | _ \<Rightarrow> [])\<rparr>"

definition exampleCache :: CacheConfig where
  "exampleCache =
     \<lparr>fastCapacity = 1, ttlExact = 60, ttlSimilar = 30, adjustmentSimilar = 1 / 10,
      distance = (\<lambda>a b. if a = b then 0 else 1)\<rparr>"

definition exampleClassifier :: ClassifierConfig where
  "exampleClassifier =
     \<lparr>forceCheap = [\<lambda>f s. toCall s = 0],
      forceExpensive = [\<lambda>f s. 3 \<le> length (playerStacks s)]\<rparr>"

definition exampleRouter :: RouterConfig where
  "exampleRouter =
     \<lparr>normalizerCfg = exampleNormalizer,
      cacheCfg = exampleCache,
      classifierCfg = exampleClassifier,
      budgetCfg = \<lparr>budgetLimit = 100, windowLength = 1000\<rparr>,
      estimatedCost = (\<lambda>t. case t of Expensive \<Rightarrow> 5 | Moderate \<Rightarrow> 0 | Cheap \<Rightarrow> 0),
      similarityThreshold = 1 / 20,
      cheapTier = (\<lambda>s. exampleDecision Fold)\<rparr>"


definition allFailing :: Collaborators where
  "allFailing =
     \<lparr>sharedBackendUp = False,
      expensiveTier = (\<lambda>s. Inl Timeout),
      moderateTier = (\<lambda>s. None),
      deadlineElapsed = (\<lambda>p. True)\<rparr>"

definition emptyStore :: CacheStore where
  "emptyStore = \<lparr>fast = [], shared = []\<rparr>"


definition fresh :: RouterState where
  "fresh =
     \<lparr>cache = emptyStore,
      budget = \<lparr>windowStart = 0, spend = 0, calls = 0, elapsedTotal = 0\<rparr>\<rparr>"



section \<open>Properties of the HTTP surface\<close>

lemma jsonHeaders_eq:
  "jsonHeaders = (''Content-Type'', ''application/json'') # corsHeaders"
  by (simp add: jsonHeaders_def spread_def corsHeaders_def)

lemma header_origin_cors:
  "map_of corsHeaders ''Access-Control-Allow-Origin'' = Some ''*''"
  by (simp add: corsHeaders_def)

lemma header_origin_json:
  "map_of jsonHeaders ''Access-Control-Allow-Origin'' = Some ''*''"
  by (simp add: jsonHeaders_eq corsHeaders_def)

subsection \<open>Decimal rendering\<close>

lemma digit_value_digit_char: "d < 10 \<Longrightarrow> digit_value (digit_char d) = d"
  by (auto simp: digit_value_def digit_char_def)

lemma decimal_value_snoc: "decimal_value (s @ [c]) = 10 * decimal_value s + digit_value c"
  by (simp add: decimal_value_def)

lemma decimal_value_digits: "decimal_value (digits n) = n"
proof (induction n rule: digits.induct)
  case (1 n)
  show ?case
  proof (cases "n < 10")
    case True
    then show ?thesis
      by (simp add: digits.simps [of n] decimal_value_def digit_value_digit_char)
  next
    case False
    with "1" have "decimal_value (digits (n div 10)) = n div 10" by simp
    with False show ?thesis
      by (simp add: digits.simps [of n] decimal_value_snoc digit_value_digit_char)
  qed
qed

subsection \<open>The CORS preflight\<close>

text \<open>
  Claim C8. A request whose method is \<^verbatim>\<open>OPTIONS\<close> is answered, whatever its pathname
  (and whatever the environment and the clock), with status 200, a null body and the four
  CORS headers \<^verbatim>\<open>Access-Control-Allow-Origin\<close>, \<^verbatim>\<open>Access-Control-Allow-Methods\<close>,
  \<^verbatim>\<open>Access-Control-Allow-Headers\<close> and \<^verbatim>\<open>Access-Control-Max-Age\<close>.
\<close>

theorem fetch_OPTIONS_preflight:
  "http_method request = ''OPTIONS'' \<Longrightarrow>
     status (fetch rt env request) = 200 \<and>
     body (fetch rt env request) = NullBody \<and>
     header ''Access-Control-Allow-Origin'' (fetch rt env request) = Some ''*'' \<and>
     header ''Access-Control-Allow-Methods'' (fetch rt env request)
       = Some ''GET, POST, PUT, DELETE, OPTIONS'' \<and>
     header ''Access-Control-Allow-Headers'' (fetch rt env request)
       = Some ''Content-Type, Authorization'' \<and>
     header ''Access-Control-Max-Age'' (fetch rt env request) = Some ''86400''"
  by (simp add: fetch_def Response_def header_def corsHeaders_def)

text \<open>The preflight of a route that does not exist.\<close>

theorem fetch_OPTIONS_preflight_witness:
  "http_method \<lparr>http_method = ''OPTIONS'', url_pathname = ''/no/such/route'',
           json = Inl NonError :: js_error + int json_value\<rparr> = ''OPTIONS'' \<and>
   status (fetch \<lparr>Date_now = 0, new_Date = 0, toISOString = (\<lambda>t. [])\<rparr> None
     \<lparr>http_method = ''OPTIONS'', url_pathname = ''/no/such/route'',
      json = Inl NonError :: js_error + int json_value\<rparr>) = 200 \<and>
   body (fetch \<lparr>Date_now = 0, new_Date = 0, toISOString = (\<lambda>t. [])\<rparr> None
     \<lparr>http_method = ''OPTIONS'', url_pathname = ''/no/such/route'',
      json = Inl NonError :: js_error + int json_value\<rparr>) = NullBody"
  using fetch_OPTIONS_preflight
    [of "\<lparr>http_method = ''OPTIONS'', url_pathname = ''/no/such/route'',
           json = Inl NonError :: js_error + int json_value\<rparr>"
        "\<lparr>Date_now = 0, new_Date = 0, toISOString = (\<lambda>t. [])\<rparr>" None]
  by simp

subsection \<open>The origin header on every branch\<close>

lemma header_route:
  "route rt env request = Inr r \<Longrightarrow> header ''Access-Control-Allow-Origin'' r = Some ''*''"
  by (auto simp: route_def Response_def header_def header_origin_json
           split: if_splits option.splits)

lemma header_internal_error:
  "header ''Access-Control-Allow-Origin'' (internal_error error) = Some ''*''"
  by (simp add: internal_error_def Response_def header_def header_origin_json)

text \<open>
  The four branches behind the preflight are all taken: the root route, the health route,
  the 404 of an unknown route, and the 500 of the \<^verbatim>\<open>catch\<close> clause.
\<close>

lemma fetch_branches:
  fixes rt :: runtime and e :: env
  shows "status (fetch rt (Some e) \<lparr>http_method = ''GET'', url_pathname = ''/'',
           json = Inl NonError :: js_error + int json_value\<rparr>) = 200"
    and "status (fetch rt (Some e) \<lparr>http_method = ''GET'', url_pathname = ''/health'',
           json = Inl NonError :: js_error + int json_value\<rparr>) = 200"
    and "status (fetch rt (Some e) \<lparr>http_method = ''GET'', url_pathname = ''/agents'',
           json = Inl NonError :: js_error + int json_value\<rparr>) = 404"
    and "status (fetch rt None \<lparr>http_method = ''GET'', url_pathname = ''/health'',
           json = Inl NonError :: js_error + int json_value\<rparr>) = 500"
  by (simp_all add: fetch_def route_def internal_error_def Response_def)

text \<open>
  Claim C9. Every response of the Worker's \<^verbatim>\<open>fetch\<close> carries the header
  \<^verbatim>\<open>Access-Control-Allow-Origin: *\<close>: the preflight, the root route, the health route,
  the 404 branch and the 500 branch; the response the \<^verbatim>\<open>catch\<close> clause builds
  carries it for every caught value.
\<close>

theorem fetch_allow_origin:
  "header ''Access-Control-Allow-Origin'' (fetch rt env request) = Some ''*'' \<and>
   header ''Access-Control-Allow-Origin'' (internal_error error :: 'n response) = Some ''*''"
proof
  show "header ''Access-Control-Allow-Origin'' (fetch rt env request) = Some ''*''"
  proof (cases "http_method request = ''OPTIONS''")
    case True
    then show ?thesis
      by (simp add: fetch_def Response_def header_def header_origin_cors)
  next
    case False
    show ?thesis
    proof (cases "route rt env request")
      case (Inl error)
      with False show ?thesis
        by (simp add: fetch_def header_internal_error)
    next
      case (Inr r)
      with False show ?thesis
        by (simp add: fetch_def header_route)
    qed
  qed
  show "header ''Access-Control-Allow-Origin'' (internal_error error :: 'n response) = Some ''*''"
    by (rule header_internal_error)
qed

subsection \<open>Creating an agent\<close>

lemma digits_nonempty: "digits n \<noteq> []"
  by (subst digits.simps) simp

lemma digit_char_digit: "is_digit (digit_char d)"
  by (simp add: digit_char_def is_digit_def)

lemma digit_char_zero: "d < 10 \<Longrightarrow> digit_char d = CHR ''0'' \<Longrightarrow> d = 0"
  using digit_value_digit_char [of d] by (simp add: digit_value_def)

lemma digits_all_digits: "list_all is_digit (digits n)"
proof (induction n rule: digits.induct)
  case (1 n)
  show ?case
  proof (cases "n < 10")
    case True
    then show ?thesis
      by (simp add: digits.simps [of n] digit_char_digit)
  next
    case False
    with "1" have "list_all is_digit (digits (n div 10))" by simp
    with False show ?thesis
      by (simp add: digits.simps [of n] digit_char_digit)
  qed
qed

lemma hd_digits_nonzero: "0 < n \<Longrightarrow> hd (digits n) \<noteq> CHR ''0''"
proof (induction n rule: digits.induct)
  case (1 n)
  show ?case
  proof (cases "n < 10")
    case True
    with "1.prems" digit_char_zero [of n] show ?thesis
      by (auto simp: digits.simps [of n])
  next
    case False
    then have "0 < n div 10" by simp
    with "1.IH" False have "hd (digits (n div 10)) \<noteq> CHR ''0''" by simp
    with False show ?thesis
      by (simp add: digits.simps [of n] digits_nonempty)
  qed
qed

lemma digits_no_leading_zero: "hd (digits n) = CHR ''0'' \<Longrightarrow> digits n = ''0''"
proof -
  assume "hd (digits n) = CHR ''0''"
  with hd_digits_nonzero [of n] have "n = 0" by auto
  then show ?thesis by (simp add: digits.simps [of 0] digit_char_def)
qed

lemma digits_canonical: "canonicalDecimal (digits n)"
  using digits_no_leading_zero [of n]
  by (simp add: canonicalDecimal_def digits_nonempty digits_all_digits)

lemma Number_toString_decimal:
  "Number_toString i = (if i < 0 then ''-'' else []) @ digits (nat \<bar>i\<bar>)"
  by (simp add: Number_toString_def)

lemma map_fixed: "map g xs = xs \<Longrightarrow> x \<in> set xs \<Longrightarrow> g x = x"
  by (induction xs) auto

lemma written_lossless: "lossless v \<Longrightarrow> written v = v"
proof (induction v)
  case (JNum n)
  then show ?case by (cases n) (simp_all add: lossless_def)
next
  case (JArr vs)
  then have "\<forall>x\<in>set vs. written x = x"
    by (auto simp: lossless_def list_all_iff)
  then show ?case by (simp add: map_idI)
next
  case (JObj props)
  have "map_prod id written p = p" if "p \<in> set props" for p
  proof -
    obtain k x where p: "p = (k, x)" by (cases p)
    with that JObj.prems have "lossless x"
      by (force simp: lossless_def list_all_iff)
    from JObj.IH [of p x] that p have "lossless x \<Longrightarrow> written x = x"
      by simp
    with \<open>lossless x\<close> p show ?thesis by simp
  qed
  then show ?case by (simp add: map_idI)
qed (simp_all add: lossless_def)

lemma lossless_written: "written v = v \<Longrightarrow> lossless v"
proof (induction v)
  case (JNum n)
  then show ?case by (cases n) (simp_all add: lossless_def)
next
  case (JArr vs)
  then have m: "map written vs = vs" by simp
  have "lossless x" if "x \<in> set vs" for x
    using JArr.IH [OF that] map_fixed [OF m that] by simp
  then show ?case by (simp add: lossless_def list_all_iff)
next
  case (JObj props)
  then have m: "map (map_prod id written) props = props" by simp
  have "list_all finite_number (numbers_of (snd p))" if "p \<in> set props" for p
  proof -
    obtain k x where p: "p = (k, x)" by (cases p)
    from map_fixed [OF m that] p have "written x = x" by simp
    with JObj.IH [of p x] that p show ?thesis by (simp add: lossless_def)
  qed
  then show ?case by (simp add: lossless_def list_all_iff)
qed (simp_all add: lossless_def)

text \<open>
  Claim C10, as stated, fails: the config of the answer is the parsed body as
  \<^verbatim>\<open>JSON.stringify\<close> writes it, not always the parsed body itself. The body
  \<^verbatim>\<open>[1e400]\<close> parses to an array holding \<^verbatim>\<open>Infinity\<close>, and the answer carries
  \<^verbatim>\<open>[null]\<close>.
\<close>

theorem createAgent_echo_counterexample:
  "json \<lparr>http_method = ''POST'', url_pathname = ''/agents'',
         json = Inr (JArr [JNum PositiveInfinity])\<rparr> = Inr (JArr [JNum PositiveInfinity]) \<and>
   map_sum id (payload_field ''config'')
     (createAgent \<lparr>Date_now = 1730000000000, new_Date = 1730000000000, toISOString = (\<lambda>t. [])\<rparr>
        \<lparr>http_method = ''POST'', url_pathname = ''/agents'',
         json = Inr (JArr [JNum PositiveInfinity])\<rparr>)
     = Inr (Some (JArr [JNull])) \<and>
   JArr [JNull] \<noteq> JArr [JNum PositiveInfinity]"
  by (simp add: createAgent_def Response_def payload_field_def)

text \<open>
  Claim C10, amended. A \<^verbatim>\<open>POST\<close> to \<^verbatim>\<open>/agents\<close> whose body parses as JSON is
  answered by \<^verbatim>\<open>createAgent\<close> with status 201. The \<^verbatim>\<open>agentId\<close> of the answer is
  \<^verbatim>\<open>agent_\<close> followed by the canonical decimal numeral of \<^verbatim>\<open>Date.now()\<close> (after a
  minus sign, should the clock be negative). Its \<^verbatim>\<open>config\<close> is the parsed body as
  \<^verbatim>\<open>JSON.stringify\<close> writes it, whatever JSON value that is, nothing of it being
  inspected: the parsed body unchanged exactly when every number in it is finite, and
  otherwise with negative zero as \<^verbatim>\<open>0\<close> and the numbers that are not finite as
  \<^verbatim>\<open>null\<close>.
\<close>

theorem createAgent_created:
  "json request = Inr config \<Longrightarrow> http_method request = ''POST'' \<Longrightarrow>
   url_pathname request = ''/agents'' \<Longrightarrow>
     \<exists>r ds. AgentManager_fetch rt request = Inr r \<and> createAgent rt request = Inr r \<and>
         status r = 201 \<and>
         payload_field ''agentId'' r
           = Some (JStr (''agent_'' @ (if Date_now rt < 0 then ''-'' else []) @ ds)) \<and>
         canonicalDecimal ds \<and> decimal_value ds = nat \<bar>Date_now rt\<bar> \<and>
         payload_field ''config'' r = Some (written config) \<and>
         (written config = config \<longleftrightarrow> lossless config)"
proof -
  assume a: "json request = Inr config" "http_method request = ''POST''"
    "url_pathname request = ''/agents''"
  let ?ds = "digits (nat \<bar>Date_now rt\<bar>)"
  let ?r = "Response
            (JSON_stringify (written (JObj
              [(''agentId'', JStr (''agent_'' @ Number_toString (Date_now rt))),
               (''status'', JStr ''created''),
               (''config'', config),
               (''createdAt'', JStr (toISOString rt (new_Date rt)))])))
            (Some 201) [(''Content-Type'', ''application/json'')]"
  from a have "createAgent rt request = Inr ?r"
    by (simp add: createAgent_def)
  moreover from a this have "AgentManager_fetch rt request = Inr ?r"
    by (simp add: AgentManager_fetch_def)
  moreover have "status ?r = 201"
    by (simp add: Response_def)
  moreover have "payload_field ''agentId'' ?r
                   = Some (JStr (''agent_'' @ (if Date_now rt < 0 then ''-'' else []) @ ?ds))"
    by (simp add: Response_def payload_field_def Number_toString_decimal)
  moreover have "canonicalDecimal ?ds"
    by (rule digits_canonical)
  moreover have "decimal_value ?ds = nat \<bar>Date_now rt\<bar>"
    by (rule decimal_value_digits)
  moreover have "payload_field ''config'' ?r = Some (written config)"
    by (simp add: Response_def payload_field_def)
  moreover have "written config = config \<longleftrightarrow> lossless config"
    using written_lossless lossless_written by blast
  ultimately show ?thesis by blast
qed

text \<open>
  A body that is no agent configuration at all is accepted and echoed, at two readings of
  the clock.
\<close>

theorem createAgent_created_witness:
  "(\<exists>r. AgentManager_fetch
          \<lparr>Date_now = 1730000000000, new_Date = 1730000000000, toISOString = (\<lambda>t. [])\<rparr>
          \<lparr>http_method = ''POST'', url_pathname = ''/agents'',
           json = Inr (JObj [(''nonsense'', JArr [JNull, JBool True, JNum (Finite 7)])])\<rparr> = Inr r \<and>
       status r = 201 \<and>
       payload_field ''agentId'' r = Some (JStr ''agent_1730000000000'') \<and>
       payload_field ''config'' r
         = Some (JObj [(''nonsense'', JArr [JNull, JBool True, JNum (Finite 7)])])) \<and>
   (\<exists>r. AgentManager_fetch
          \<lparr>Date_now = 86400042, new_Date = 86400042, toISOString = (\<lambda>t. [])\<rparr>
          \<lparr>http_method = ''POST'', url_pathname = ''/agents'',
           json = Inr (JStr ''not a configuration'')\<rparr> = Inr r \<and>
       status r = 201 \<and>
       payload_field ''agentId'' r = Some (JStr ''agent_86400042'') \<and>
       payload_field ''config'' r = Some (JStr ''not a configuration''))"
proof -
  have d1: "digits 1730000000000 = ''1730000000000''"
    by (simp add: digits.simps digit_char_def)
  have d2: "digits 86400042 = ''86400042''"
    by (simp add: digits.simps digit_char_def)
  from createAgent_created
    [of "\<lparr>http_method = ''POST'', url_pathname = ''/agents'',
           json = Inr (JObj [(''nonsense'', JArr [JNull, JBool True, JNum (Finite 7)])])\<rparr>"
        "JObj [(''nonsense'', JArr [JNull, JBool True, JNum (Finite 7)])]"
        "\<lparr>Date_now = 1730000000000, new_Date = 1730000000000, toISOString = (\<lambda>t. [])\<rparr>"]
  obtain r1 ds1 where r1:
    "AgentManager_fetch
          \<lparr>Date_now = 1730000000000, new_Date = 1730000000000, toISOString = (\<lambda>t. [])\<rparr>
          \<lparr>http_method = ''POST'', url_pathname = ''/agents'',
           json = Inr (JObj [(''nonsense'', JArr [JNull, JBool True, JNum (Finite 7)])])\<rparr> = Inr r1"
    "status r1 = 201"
    "payload_field ''config'' r1
       = Some (written (JObj [(''nonsense'', JArr [JNull, JBool True, JNum (Finite 7)])]))"
    by auto
  from createAgent_created
    [of "\<lparr>http_method = ''POST'', url_pathname = ''/agents'',
           json = Inr (JStr ''not a configuration'')\<rparr>"
        "JStr ''not a configuration''"
        "\<lparr>Date_now = 86400042, new_Date = 86400042, toISOString = (\<lambda>t. [])\<rparr>"]
  obtain r2 ds2 where r2:
    "AgentManager_fetch
          \<lparr>Date_now = 86400042, new_Date = 86400042, toISOString = (\<lambda>t. [])\<rparr>
          \<lparr>http_method = ''POST'', url_pathname = ''/agents'',
           json = Inr (JStr ''not a configuration'')\<rparr> = Inr r2"
    "status r2 = 201"
    "payload_field ''config'' r2 = Some (written (JStr ''not a configuration''))"
    by auto
  from r1(1) have a1: "payload_field ''agentId'' r1 = Some (JStr ''agent_1730000000000'')"
    by (auto simp: AgentManager_fetch_def createAgent_def Response_def payload_field_def
                   Number_toString_def d1)
  from r2(1) have a2: "payload_field ''agentId'' r2 = Some (JStr ''agent_86400042'')"
    by (auto simp: AgentManager_fetch_def createAgent_def Response_def payload_field_def
                   Number_toString_def d2)
  from r1 a1 have "\<exists>r. AgentManager_fetch
          \<lparr>Date_now = 1730000000000, new_Date = 1730000000000, toISOString = (\<lambda>t. [])\<rparr>
          \<lparr>http_method = ''POST'', url_pathname = ''/agents'',
           json = Inr (JObj [(''nonsense'', JArr [JNull, JBool True, JNum (Finite 7)])])\<rparr> = Inr r \<and>
       status r = 201 \<and>
       payload_field ''agentId'' r = Some (JStr ''agent_1730000000000'') \<and>
       payload_field ''config'' r
         = Some (JObj [(''nonsense'', JArr [JNull, JBool True, JNum (Finite 7)])])"
    by (intro exI [of _ r1]) simp
  moreover from r2 a2 have "\<exists>r. AgentManager_fetch
          \<lparr>Date_now = 86400042, new_Date = 86400042, toISOString = (\<lambda>t. [])\<rparr>
          \<lparr>http_method = ''POST'', url_pathname = ''/agents'',
           json = Inr (JStr ''not a configuration'')\<rparr> = Inr r \<and>
       status r = 201 \<and>
       payload_field ''agentId'' r = Some (JStr ''agent_86400042'') \<and>
       payload_field ''config'' r = Some (JStr ''not a configuration'')"
    by (intro exI [of _ r2]) simp
  ultimately show ?thesis by (rule conjI)
qed

section \<open>Properties of the documented decision cache and router\<close>

subsection \<open>Fingerprints\<close>

text \<open>
  The spec's example of an irrelevant detail: pots of 501 and 505, with 100 to call, fall
  into the same pot-odds bucket; an empty pot is malformed.
\<close>

lemma normalize_example_501:
  "normalize_situation exampleNormalizer (exampleSituation 501) = Inr exampleFeatures"
  by (simp add: normalize_situation_def exampleNormalizer_def exampleSituation_def
                exampleFeatures_def Math_round_def floor_eq_iff)

lemma normalize_example_505:
  "normalize_situation exampleNormalizer (exampleSituation 505) = Inr exampleFeatures"
  by (simp add: normalize_situation_def exampleNormalizer_def exampleSituation_def
                exampleFeatures_def Math_round_def floor_eq_iff)


text \<open>
  Claim C2. Two situations whose normalized features are equal have equal fingerprints.
  \<open>normalize_situation\<close> is a function of the situation alone, and of no more of it than
  the cards, the position, the betting history, the tenth that the pot odds round to and
  the bucket of the stack depth: situations that agree on these normalize to the same
  features, whatever else distinguishes them.
\<close>

theorem fingerprint_deterministic:
  "(normalize_situation nc s1 = Inr f1 \<and> normalize_situation nc s2 = Inr f2 \<and> f1 = f2 \<longrightarrow>
      fingerprint nc f1 = fingerprint nc f2 \<and> fingerprintOf nc s1 = fingerprintOf nc s2) \<and>
   (0 < pot s1 \<and> 0 < bigBlind s1 \<and> 0 < pot s2 \<and> 0 < bigBlind s2 \<and>
    hand s1 = hand s2 \<and> communityCards s1 = communityCards s2 \<and>
    position s1 = position s2 \<and> bettingHistory s1 = bettingHistory s2 \<and>
    Math_round (of_nat (toCall s1) / of_nat (pot s1) * 10)
      = Math_round (of_nat (toCall s2) / of_nat (pot s2) * 10) \<and>
    bucketizeStack nc (of_nat (stackSize s1) / of_nat (bigBlind s1))
      = bucketizeStack nc (of_nat (stackSize s2) / of_nat (bigBlind s2)) \<longrightarrow>
      normalize_situation nc s1 = normalize_situation nc s2 \<and>
      fingerprintOf nc s1 = fingerprintOf nc s2)"
proof (intro conjI impI)
  assume "normalize_situation nc s1 = Inr f1 \<and> normalize_situation nc s2 = Inr f2 \<and> f1 = f2"
  then have "f1 = f2" and "normalize_situation nc s1 = normalize_situation nc s2"
    by simp_all
  then show "fingerprint nc f1 = fingerprint nc f2"
    and "fingerprintOf nc s1 = fingerprintOf nc s2"
    by (simp_all add: fingerprintOf_def)
next
  assume a: "0 < pot s1 \<and> 0 < bigBlind s1 \<and> 0 < pot s2 \<and> 0 < bigBlind s2 \<and>
    hand s1 = hand s2 \<and> communityCards s1 = communityCards s2 \<and>
    position s1 = position s2 \<and> bettingHistory s1 = bettingHistory s2 \<and>
    Math_round (of_nat (toCall s1) / of_nat (pot s1) * 10)
      = Math_round (of_nat (toCall s2) / of_nat (pot s2) * 10) \<and>
    bucketizeStack nc (of_nat (stackSize s1) / of_nat (bigBlind s1))
      = bucketizeStack nc (of_nat (stackSize s2) / of_nat (bigBlind s2))"
  then show same: "normalize_situation nc s1 = normalize_situation nc s2"
    by (simp add: normalize_situation_def)
  then show "fingerprintOf nc s1 = fingerprintOf nc s2"
    by (simp add: fingerprintOf_def)
qed

text \<open>
  The spec's example: the situations with pots of 501 and 505 differ, and have the same
  features and the same fingerprint.
\<close>

theorem fingerprint_deterministic_witness:
  "exampleSituation 501 \<noteq> exampleSituation 505 \<and>
   normalize_situation exampleNormalizer (exampleSituation 501)
     = normalize_situation exampleNormalizer (exampleSituation 505) \<and>
   fingerprintOf exampleNormalizer (exampleSituation 501)
     = fingerprintOf exampleNormalizer (exampleSituation 505) \<and>
   fingerprint exampleNormalizer exampleFeatures = fingerprint exampleNormalizer exampleFeatures"
proof -
  have r1: "Math_round (of_nat (toCall (exampleSituation 501)) / of_nat (pot (exampleSituation 501)) * 10) = 2"
    by (simp add: exampleSituation_def Math_round_def floor_eq_iff)
  have r2: "Math_round (of_nat (toCall (exampleSituation 505)) / of_nat (pot (exampleSituation 505)) * 10) = 2"
    by (simp add: exampleSituation_def Math_round_def floor_eq_iff)
  from r1 r2
  have r: "Math_round (of_nat (toCall (exampleSituation 501)) / of_nat (pot (exampleSituation 501)) * 10)
             = Math_round (of_nat (toCall (exampleSituation 505)) / of_nat (pot (exampleSituation 505)) * 10)"
    by simp
  have d: "exampleSituation 501 \<noteq> exampleSituation 505"
    by (simp add: exampleSituation_def)
  from fingerprint_deterministic
         [of exampleNormalizer "exampleSituation 501" exampleFeatures "exampleSituation 505"
             exampleFeatures]
       r d normalize_example_501 normalize_example_505
  show ?thesis
    by (simp add: exampleSituation_def)
qed

subsection \<open>The tier classifier\<close>

lemma find_tagged_none:
  "\<forall>r\<in>set rs. \<not> r f s \<Longrightarrow>
     find (\<lambda>(r, t). r f s) (map (\<lambda>r. (r, T)) rs @ ys) = find (\<lambda>(r, t). r f s) ys"
  by (induction rs) auto

lemma find_tagged_some:
  "\<exists>r\<in>set rs. r f s \<Longrightarrow>
     \<exists>r. find (\<lambda>(r, t). r f s) (map (\<lambda>r. (r, T)) rs @ ys) = Some (r, T)"
  by (induction rs) auto

lemma classify_cheap:
  assumes "\<exists>r\<in>set (forceCheap k). r f s"
  shows "classify k f s = Cheap"
proof -
  from find_tagged_some [OF assms, of Cheap "map (\<lambda>r. (r, Expensive)) (forceExpensive k)"]
  obtain r where "find (\<lambda>(r, t). r f s) (priorityOrder k) = Some (r, Cheap)"
    unfolding priorityOrder_def by blast
  then show ?thesis by (simp add: classify_def)
qed

lemma classify_expensive:
  assumes "\<forall>r\<in>set (forceCheap k). \<not> r f s" and "\<exists>r\<in>set (forceExpensive k). r f s"
  shows "classify k f s = Expensive"
proof -
  have "find (\<lambda>(r, t). r f s) (priorityOrder k)
          = find (\<lambda>(r, t). r f s) (map (\<lambda>r. (r, Expensive)) (forceExpensive k) @ [])"
    unfolding priorityOrder_def
    using find_tagged_none [OF assms(1), of Cheap "map (\<lambda>r. (r, Expensive)) (forceExpensive k)"]
    by simp
  moreover from find_tagged_some [OF assms(2), of Expensive "[]"]
  obtain r where "find (\<lambda>(r, t). r f s) (map (\<lambda>r. (r, Expensive)) (forceExpensive k) @ [])
                    = Some (r, Expensive)"
    by blast
  ultimately show ?thesis by (simp add: classify_def)
qed

lemma classify_moderate:
  assumes "\<forall>r\<in>set (forceCheap k). \<not> r f s" and "\<forall>r\<in>set (forceExpensive k). \<not> r f s"
  shows "classify k f s = Moderate"
proof -
  have "find (\<lambda>(r, t). r f s) (priorityOrder k)
          = find (\<lambda>(r, t). r f s) (map (\<lambda>r. (r, Expensive)) (forceExpensive k) @ [])"
    unfolding priorityOrder_def
    using find_tagged_none [OF assms(1), of Cheap "map (\<lambda>r. (r, Expensive)) (forceExpensive k)"]
    by simp
  also have "\<dots> = find (\<lambda>(r, t). r f s) []"
    using find_tagged_none [OF assms(2), of Expensive "[]"] by simp
  finally show ?thesis by (simp add: classify_def)
qed

text \<open>
  Claim C6. \<open>classify\<close> is a function into the three tiers, and the priority order
  decides it: a situation that matches any force-cheap rule is Cheap whatever else it
  matches; one that matches no force-cheap rule and some force-expensive rule is
  Expensive; one that matches neither is Moderate.
\<close>

theorem classify_priority:
  "((\<exists>r\<in>set (forceCheap k). r f s) \<longrightarrow> classify k f s = Cheap) \<and>
   ((\<forall>r\<in>set (forceCheap k). \<not> r f s) \<and> (\<exists>r\<in>set (forceExpensive k). r f s)
      \<longrightarrow> classify k f s = Expensive) \<and>
   ((\<forall>r\<in>set (forceCheap k). \<not> r f s) \<and> (\<forall>r\<in>set (forceExpensive k). \<not> r f s)
      \<longrightarrow> classify k f s = Moderate)"
proof (intro conjI impI)
  assume "\<exists>r\<in>set (forceCheap k). r f s"
  then show "classify k f s = Cheap"
    by (rule classify_cheap)
next
  assume a: "(\<forall>r\<in>set (forceCheap k). \<not> r f s) \<and> (\<exists>r\<in>set (forceExpensive k). r f s)"
  show "classify k f s = Expensive"
    by (rule classify_expensive [OF conjunct1 [OF a] conjunct2 [OF a]])
next
  assume a: "(\<forall>r\<in>set (forceCheap k). \<not> r f s) \<and> (\<forall>r\<in>set (forceExpensive k). \<not> r f s)"
  show "classify k f s = Moderate"
    by (rule classify_moderate [OF conjunct1 [OF a] conjunct2 [OF a]])
qed

text \<open>
  A situation that matches both kinds of rule is Cheap; without the force-cheap match it is
  Expensive; with neither, Moderate.
\<close>

theorem classify_priority_witness:
  "classify exampleClassifier exampleFeatures ((exampleSituation 501)\<lparr>toCall := 0\<rparr>) = Cheap \<and>
   classify exampleClassifier exampleFeatures (exampleSituation 501) = Expensive \<and>
   classify exampleClassifier exampleFeatures ((exampleSituation 501)\<lparr>playerStacks := [1000, 980]\<rparr>)
     = Moderate"
  using classify_priority [of exampleClassifier exampleFeatures "(exampleSituation 501)\<lparr>toCall := 0\<rparr>"]
        classify_priority [of exampleClassifier exampleFeatures "exampleSituation 501"]
        classify_priority [of exampleClassifier exampleFeatures
                             "(exampleSituation 501)\<lparr>playerStacks := [1000, 980]\<rparr>"]
  by (simp add: exampleClassifier_def exampleSituation_def)

subsection \<open>The cache store\<close>



















subsection \<open>The router and the budget\<close>

lemma run_terminal: "terminal (fst c) \<Longrightarrow> run cfg env now s c = ([fst c], snd c)"
  by (simp add: run.simps)

lemma run_step:
  "\<not> terminal (fst c) \<Longrightarrow>
     run cfg env now s c =
       (fst c # fst (run cfg env now s (step cfg env now s c)),
        snd (run cfg env now s (step cfg env now s c)))"
  by (subst run.simps) (simp split: prod.splits)

























text \<open>
  Scenario D of the spec: the window is exhausted, the classifier assigns Expensive, and the
  Router downgrades to Moderate and returns its decision.
\<close>

lemma example_normalizer: "normalizerCfg exampleRouter = exampleNormalizer"
  by (simp add: exampleRouter_def)














subsection \<open>Error propagation\<close>














text \<open>
  Every collaborator failing at once: the caller still receives the Cheap tier's decision.
\<close>

lemma all_failing_falls_back:
  "fst (decide exampleRouter allFailing 20 (exampleSituation 501) fresh)
     = Some (Inr (exampleDecision Fold))"
proof -
  have n: "normalize_situation (normalizerCfg exampleRouter) (exampleSituation 501)
             = Inr exampleFeatures"
    by (simp add: example_normalizer normalize_example_501)
  have c: "classify (classifierCfg exampleRouter) exampleFeatures (exampleSituation 501)
             = Expensive"
    by (simp add: exampleRouter_def classify_def priorityOrder_def exampleClassifier_def
                  exampleSituation_def)
  have l: "cacheLookup exampleRouter allFailing 20 exampleFeatures fresh
             = (CLASSIFY exampleFeatures, fresh)"
    by (simp add: cacheLookup_def lookupFast_def lookupShared_def getSimilar_def
                  fresh_def emptyStore_def allFailing_def)
  have b1: "canEscalate (budgetCfg exampleRouter) 20 (budget fresh)
                (estimatedCost exampleRouter Expensive)"
    by (simp add: canEscalate_def remainingBudget_def rollover_def exampleRouter_def
                  fresh_def)
  have m: "compute exampleRouter allFailing 20 (exampleSituation 501) exampleFeatures Expensive
             fresh = (FAIL, fresh)"
    by (simp add: compute_def allFailing_def)
  have k: "cheapTier exampleRouter (exampleSituation 501) = exampleDecision Fold"
    by (simp add: exampleRouter_def)
  show ?thesis
    by (simp add: decide_def run_step run_terminal step_def n c l b1 m k)
qed


end
